theory Spec2Isabelle
  imports Complex_Main "HOL-Library.AList"
begin

section \<open>The arbitrage example of catalyst: data\<close>

text \<open>
  The embedding follows \<^verbatim>\<open>catalyst/examples/arbitrage_with_interface.py\<close>.
  Prices, balances, thresholds and amounts are Python floats in the source; they are
  modelled as real numbers, so rounding, infinities and NaN are outside the model.
  A Python exception is a value of \<open>error\<close>. A call of the function \<^verbatim>\<open>order\<close>
  of the catalyst API is recorded as an \<open>order_intent\<close>; a function that places orders
  returns the list of orders placed so far together with the exception that ended it,
  if any. The calls of the logger and of \<^verbatim>\<open>record\<close> have no effect on the orders
  and are left out.
\<close>

datatype error = ValueError | KeyError | ZeroDivisionError

text \<open>The trading pair returned by \<^verbatim>\<open>symbol\<close>: only its market currency is read.\<close>

record asset =
  asset_symbol :: string
  asset_exchange :: string
  market_currency :: string

text \<open>
  An exchange object: \<open>portfolio_cash\<close> is \<^verbatim>\<open>exchange.portfolio.cash\<close> and
  \<open>get_balances\<close> is the dictionary returned by \<^verbatim>\<open>exchange.get_balances()\<close>.
\<close>

record exchange =
  name :: string
  base_currency :: string
  portfolio_cash :: real
  get_balances :: "string \<rightharpoonup> real"

text \<open>An entry or exit point, \<^verbatim>\<open>dict(gap=..., amount=...)\<close>.\<close>

record point =
  gap :: real
  amount :: real

text \<open>The arguments of one call of \<^verbatim>\<open>order(asset=, amount=, limit_price=)\<close>.\<close>

record order_intent =
  order_asset :: asset
  order_amount :: real
  limit_price :: real

text \<open>
  The context object. \<open>trading_pairs\<close> is a dictionary keyed by exchange objects; the
  model identifies an exchange by its name and keeps the dictionary as an association
  list in insertion order, since \<^verbatim>\<open>handle_data\<close> iterates over it.
\<close>

record algo_context =
  buying_exchange :: exchange
  selling_exchange :: exchange
  trading_pair_symbol :: string
  trading_pairs :: "(string \<times> asset) list"
  entry_points :: "point list"
  exit_points :: "point list"
  MAX_POSITIONS :: int
  SLIPPAGE_ALLOWED :: real

text \<open>The bar data: \<open>current d a\<close> is \<^verbatim>\<open>data.current(a, 'price')\<close>.\<close>

record bar_data =
  current :: "asset \<Rightarrow> real"

type_synonym outcome = "order_intent list \<times> error option"

section \<open>Python primitives used by the source\<close>

text \<open>\<^verbatim>\<open>d[k]\<close> on a dictionary raises KeyError for a missing key.\<close>

definition getitem :: "('k \<times> 'v) list \<Rightarrow> 'k \<Rightarrow> error + 'v" where
  "getitem d k = (case map_of d k of None \<Rightarrow> Inl KeyError | Some v \<Rightarrow> Inr v)"

text \<open>\<^verbatim>\<open>a / b\<close> on floats raises ZeroDivisionError for a zero divisor.\<close>

definition truediv :: "real \<Rightarrow> real \<Rightarrow> error + real" where
  "truediv a b = (if b = 0 then Inl ZeroDivisionError else Inr (a / b))"

text \<open>
  \<^verbatim>\<open>sorted(xs, key=, reverse=)\<close> is stable in both directions: with
  \<^verbatim>\<open>reverse=True\<close> the list is reversed, sorted and reversed again.
\<close>

definition sorted_py :: "('a \<Rightarrow> real) \<Rightarrow> bool \<Rightarrow> 'a list \<Rightarrow> 'a list" where
  "sorted_py key reverse xs =
     (if reverse then rev (sort_key key (rev xs)) else sort_key key xs)"

text \<open>The truth value of \<^verbatim>\<open>None\<close> or a float in a condition.\<close>

fun truthy :: "real option \<Rightarrow> bool" where
  "truthy None = False"
| "truthy (Some a) = (a \<noteq> 0)"

section \<open>initialize\<close>

text \<open>
  \<open>symbol\<close> is the API function of that name and \<open>exchanges\<close> is
  \<^verbatim>\<open>context.exchanges\<close>, both supplied by the harness.
\<close>

definition initialize ::
  "(string \<Rightarrow> string \<Rightarrow> asset) \<Rightarrow> (string \<times> exchange) list \<Rightarrow> error + algo_context" where
  "initialize symbol exchanges =
     (case getitem exchanges ''bittrex'' of
        Inl e \<Rightarrow> Inl e
      | Inr buying \<Rightarrow>
          (case getitem exchanges ''bitfinex'' of
             Inl e \<Rightarrow> Inl e
           | Inr selling \<Rightarrow>
               Inr \<lparr> buying_exchange = buying,
                     selling_exchange = selling,
                     trading_pair_symbol = ''neo_eth'',
                     trading_pairs =
                       AList.update (name selling) (symbol ''neo_eth'' (name selling))
                         (AList.update (name buying) (symbol ''neo_eth'' (name buying)) []),
                     entry_points =
                       [\<lparr>gap = 3 / 100, amount = 5 / 100\<rparr>,
                        \<lparr>gap = 4 / 100, amount = 1 / 10\<rparr>,
                        \<lparr>gap = 5 / 100, amount = 1 / 2\<rparr>],
                     exit_points = [\<lparr>gap = - (2 / 100), amount = 1 / 2\<rparr>],
                     MAX_POSITIONS = 50,
                     SLIPPAGE_ALLOWED = 2 / 100 \<rparr>))"

section \<open>place_order\<close>

text \<open>Lines 104 to 134: the two limit prices and the two calls of \<^verbatim>\<open>order\<close>.\<close>

definition emit_orders ::
  "algo_context \<Rightarrow> real \<Rightarrow> exchange \<Rightarrow> real \<Rightarrow> exchange \<Rightarrow> real \<Rightarrow> outcome" where
  "emit_orders ctx amt enter_exchange entry_price exit_exchange exit_price =
     (let adj_buy_price = entry_price * (1 + SLIPPAGE_ALLOWED ctx) in
      case getitem (trading_pairs ctx) (name enter_exchange) of
        Inl e \<Rightarrow> ([], Some e)
      | Inr enter_asset \<Rightarrow>
          (let buy = \<lparr>order_asset = enter_asset, order_amount = amt,
                      limit_price = adj_buy_price\<rparr>;
               adj_sell_price = exit_price * (1 - SLIPPAGE_ALLOWED ctx) in
           case getitem (trading_pairs ctx) (name exit_exchange) of
             Inl e \<Rightarrow> ([buy], Some e)
           | Inr exit_asset \<Rightarrow>
               ([buy, \<lparr>order_asset = exit_asset, order_amount = - amt,
                       limit_price = adj_sell_price\<rparr>], None)))"

text \<open>Lines 62 to 102: the balances, the missing-currency return, the clamp and the abort.\<close>

definition size_order ::
  "algo_context \<Rightarrow> real \<Rightarrow> exchange \<Rightarrow> real \<Rightarrow> exchange \<Rightarrow> real \<Rightarrow> outcome" where
  "size_order ctx amt enter_exchange entry_price exit_exchange exit_price =
     (let base_currency_amount = portfolio_cash enter_exchange;
          exit_balances = get_balances exit_exchange in
      case getitem (trading_pairs ctx) (name (selling_exchange ctx)) of
        Inl e \<Rightarrow> ([], Some e)
      | Inr selling_pair \<Rightarrow>
          (let exit_currency = market_currency selling_pair in
           case exit_balances exit_currency of
             None \<Rightarrow> ([], None)
           | Some market_currency_amount \<Rightarrow>
               if base_currency_amount < amt * entry_price then
                 (case truediv base_currency_amount entry_price of
                    Inl e \<Rightarrow> ([], Some e)
                  | Inr adj_amount \<Rightarrow>
                      emit_orders ctx adj_amount enter_exchange entry_price
                        exit_exchange exit_price)
               else if market_currency_amount < amt then ([], None)
               else emit_orders ctx amt enter_exchange entry_price
                      exit_exchange exit_price))"

text \<open>
  Lines 44 to 60: the roles of the two exchanges by action, as the tuple
  \<open>(enter_exchange, entry_price, exit_exchange, exit_price)\<close>.
\<close>

definition order_roles ::
  "algo_context \<Rightarrow> real \<Rightarrow> real \<Rightarrow> string \<Rightarrow> error + (exchange \<times> real \<times> exchange \<times> real)" where
  "order_roles ctx buying_price selling_price action =
     (if action = ''enter'' then
        Inr (buying_exchange ctx, buying_price, selling_exchange ctx, selling_price)
      else if action = ''exit'' then
        Inr (selling_exchange ctx, selling_price, buying_exchange ctx, buying_price)
      else Inl ValueError)"

definition place_order ::
  "algo_context \<Rightarrow> real \<Rightarrow> real \<Rightarrow> real \<Rightarrow> string \<Rightarrow> outcome" where
  "place_order ctx amt buying_price selling_price action =
     (case order_roles ctx buying_price selling_price action of
        Inl e \<Rightarrow> ([], Some e)
      | Inr (enter_exchange, entry_price, exit_exchange, exit_price) \<Rightarrow>
          size_order ctx amt enter_exchange entry_price exit_exchange exit_price)"

section \<open>handle_data\<close>

text \<open>Line 165.\<close>

definition price_gap :: "real \<Rightarrow> real \<Rightarrow> error + real" where
  "price_gap buying_price selling_price =
     truediv (selling_price - buying_price) buying_price"

text \<open>
  Lines 174 to 186: the loop over the keys of \<open>trading_pairs\<close>; \<open>True\<close> is the early
  return on the first exchange with open orders.
\<close>

fun found_open_orders ::
  "(asset \<Rightarrow> 'o list) \<Rightarrow> (string \<times> asset) list \<Rightarrow> string list \<Rightarrow> error + bool" where
  "found_open_orders get_open_orders pairs [] = Inr False"
| "found_open_orders get_open_orders pairs (exchange_key # rest) =
     (case getitem pairs exchange_key of
        Inl e \<Rightarrow> Inl e
      | Inr a \<Rightarrow>
          if get_open_orders a \<noteq> [] then Inr True
          else found_open_orders get_open_orders pairs rest)"

text \<open>Lines 190 to 198.\<close>

definition select_buy_amount :: "real \<Rightarrow> point list \<Rightarrow> real option" where
  "select_buy_amount g points =
     fold (\<lambda>entry_point buy_amount.
             if g > gap entry_point then Some (amount entry_point) else buy_amount)
       (sorted_py gap False points) None"

text \<open>Lines 213 to 222.\<close>

definition select_sell_amount :: "real \<Rightarrow> point list \<Rightarrow> real option" where
  "select_sell_amount g points =
     fold (\<lambda>exit_point sell_amount.
             if g < gap exit_point then Some (amount exit_point) else sell_amount)
       (sorted_py gap True points) None"

text \<open>Lines 200 to 232: the two triggers.\<close>

definition trigger :: "algo_context \<Rightarrow> real \<Rightarrow> real \<Rightarrow> real \<Rightarrow> outcome" where
  "trigger ctx g buying_price selling_price =
     (let buy_amount = select_buy_amount g (entry_points ctx) in
      if truthy buy_amount then
        place_order ctx (the buy_amount) buying_price selling_price ''enter''
      else
        (let sell_amount = select_sell_amount g (exit_points ctx) in
         if truthy sell_amount then
           place_order ctx (the sell_amount) buying_price selling_price ''exit''
         else ([], None)))"

definition handle_data ::
  "(asset \<Rightarrow> 'o list) \<Rightarrow> algo_context \<Rightarrow> bar_data \<Rightarrow> outcome" where
  "handle_data get_open_orders ctx data =
     (case getitem (trading_pairs ctx) (name (buying_exchange ctx)) of
        Inl e \<Rightarrow> ([], Some e)
      | Inr buying_pair \<Rightarrow>
          (let buying_price = current data buying_pair in
           case getitem (trading_pairs ctx) (name (selling_exchange ctx)) of
             Inl e \<Rightarrow> ([], Some e)
           | Inr selling_pair \<Rightarrow>
               (let selling_price = current data selling_pair in
                case price_gap buying_price selling_price of
                  Inl e \<Rightarrow> ([], Some e)
                | Inr g \<Rightarrow>
                    (case found_open_orders get_open_orders (trading_pairs ctx)
                            (map fst (trading_pairs ctx)) of
                       Inl e \<Rightarrow> ([], Some e)
                     | Inr True \<Rightarrow> ([], None)
                     | Inr False \<Rightarrow> trigger ctx g buying_price selling_price))))"

section \<open>Well-formed contexts\<close>

text \<open>
  \<open>initialize\<close> binds a trading pair to each of the two exchanges; the functions above
  raise KeyError on a context where one is missing.
\<close>

definition bound_pairs :: "algo_context \<Rightarrow> bool" where
  "bound_pairs ctx =
     (map_of (trading_pairs ctx) (name (buying_exchange ctx)) \<noteq> None \<and>
      map_of (trading_pairs ctx) (name (selling_exchange ctx)) \<noteq> None)"

section \<open>Sample inputs\<close>

text \<open>
  Concrete exchanges, trading pairs and bars on which the theorems below are evaluated.
  The market currency of the pair is taken to be neo and the base currency eth.
\<close>

definition sample_symbol :: "string \<Rightarrow> string \<Rightarrow> asset" where
  "sample_symbol pair_symbol exchange_name =
     \<lparr>asset_symbol = pair_symbol, asset_exchange = exchange_name,
      market_currency = ''neo''\<rparr>"

definition sample_exchange :: "string \<Rightarrow> real \<Rightarrow> (string \<times> real) list \<Rightarrow> exchange" where
  "sample_exchange exchange_name cash held =
     \<lparr>name = exchange_name, base_currency = ''eth'', portfolio_cash = cash,
      get_balances = map_of held\<rparr>"

text \<open>The context that \<open>initialize\<close> builds from two exchanges.\<close>

definition sample_context :: "exchange \<Rightarrow> exchange \<Rightarrow> algo_context" where
  "sample_context buying selling =
     \<lparr> buying_exchange = buying,
       selling_exchange = selling,
       trading_pair_symbol = ''neo_eth'',
       trading_pairs =
         AList.update (name selling) (sample_symbol ''neo_eth'' (name selling))
           (AList.update (name buying) (sample_symbol ''neo_eth'' (name buying)) []),
       entry_points =
         [\<lparr>gap = 3 / 100, amount = 5 / 100\<rparr>,
          \<lparr>gap = 4 / 100, amount = 1 / 10\<rparr>,
          \<lparr>gap = 5 / 100, amount = 1 / 2\<rparr>],
       exit_points = [\<lparr>gap = - (2 / 100), amount = 1 / 2\<rparr>],
       MAX_POSITIONS = 50,
       SLIPPAGE_ALLOWED = 2 / 100 \<rparr>"

text \<open>Bittrex with the given cash; Bitfinex holding the given balances.\<close>

definition bittrex :: "real \<Rightarrow> exchange" where
  "bittrex cash = sample_exchange ''bittrex'' cash [(''eth'', cash)]"

definition bitfinex :: "(string \<times> real) list \<Rightarrow> exchange" where
  "bitfinex held = sample_exchange ''bitfinex'' 0 held"

text \<open>A bar with the given prices on the two exchanges.\<close>

definition sample_bar :: "real \<Rightarrow> real \<Rightarrow> bar_data" where
  "sample_bar buying_price selling_price =
     \<lparr>current = (\<lambda>a. if asset_exchange a = ''bittrex'' then buying_price
                       else selling_price)\<rparr>"

section \<open>The gap\<close>

text \<open>
  C9. For every buying price \<open>Pb > 0\<close> and every selling price \<open>Ps\<close> the gap is computed
  without error and equals \<open>(Ps - Pb) / Pb\<close>; the gap of buying price 25 and selling
  price 50 is 1.
\<close>

theorem gap_value:
  "0 < Pb \<Longrightarrow> price_gap Pb Ps = Inr ((Ps - Pb) / Pb) \<and> price_gap 25 50 = Inr 1"
  by (simp add: price_gap_def truediv_def)

theorem gap_value_witness:
  "(0::real) < 25 \<and> price_gap 25 50 = Inr ((50 - 25) / 25) \<and> price_gap 25 50 = Inr 1"
  using gap_value [of 25 50] by simp

section \<open>Trigger selection\<close>

text \<open>
  The loops of lines 196 to 198 and 220 to 222 keep the amount of the last point of the
  sorted list that the gap passes.
\<close>

lemma fold_last_match:
  "fold (\<lambda>x acc. if P x then Some (f x) else acc) xs acc0 =
     (if filter P xs = [] then acc0 else Some (f (last (filter P xs))))"
  by (induction xs arbitrary: acc0) auto

lemma sorted_key_last_greatest:
  "sorted (map key xs) \<Longrightarrow> x \<in> set xs \<Longrightarrow> key x \<le> key (last xs)"
  by (induction xs) auto

lemma sorted_key_hd_least:
  "sorted (map key xs) \<Longrightarrow> x \<in> set xs \<Longrightarrow> key (hd xs) \<le> key x"
  by (induction xs) auto

lemma rev_sorted_key_last_least:
  assumes "sorted (map key (rev xs))" and "x \<in> set xs"
  shows "key (last xs) \<le> key x"
proof -
  have "xs \<noteq> []" using assms(2) by auto
  then have "hd (rev xs) = last xs" by (simp add: hd_rev)
  moreover have "key (hd (rev xs)) \<le> key x"
    using sorted_key_hd_least [OF assms(1), of x] assms(2) by simp
  ultimately show ?thesis by simp
qed

lemma select_buy_amount_last:
  "select_buy_amount g points =
     (if filter (\<lambda>p. gap p < g) (sort_key gap points) = [] then None
      else Some (amount (last (filter (\<lambda>p. gap p < g) (sort_key gap points)))))"
  unfolding select_buy_amount_def sorted_py_def
  by (simp add: fold_last_match)

lemma select_sell_amount_last:
  "select_sell_amount g points =
     (if filter (\<lambda>p. g < gap p) (rev (sort_key gap (rev points))) = [] then None
      else Some (amount (last (filter (\<lambda>p. g < gap p) (rev (sort_key gap (rev points)))))))"
  unfolding select_sell_amount_def sorted_py_def
  by (simp add: fold_last_match)

lemma entry_winner:
  assumes "\<exists>p\<in>set points. gap p < g"
  defines "w \<equiv> last (filter (\<lambda>p. gap p < g) (sort_key gap points))"
  shows "w \<in> set points" and "gap w < g"
    and "\<forall>q\<in>set points. gap q < g \<longrightarrow> gap q \<le> gap w"
proof -
  let ?ms = "filter (\<lambda>p. gap p < g) (sort_key gap points)"
  have ne: "?ms \<noteq> []" using assms(1) by (auto simp: filter_empty_conv)
  then have "w \<in> set ?ms" unfolding w_def by (rule last_in_set)
  then show "w \<in> set points" and "gap w < g" by auto
  have srt: "sorted (map gap ?ms)" by (rule sorted_filter) simp
  show "\<forall>q\<in>set points. gap q < g \<longrightarrow> gap q \<le> gap w"
  proof (intro ballI impI)
    fix q assume "q \<in> set points" and "gap q < g"
    then have "q \<in> set ?ms" by simp
    then show "gap q \<le> gap w"
      unfolding w_def using sorted_key_last_greatest [OF srt] by blast
  qed
qed

lemma exit_winner:
  assumes "\<exists>p\<in>set points. g < gap p"
  defines "w \<equiv> last (filter (\<lambda>p. g < gap p) (rev (sort_key gap (rev points))))"
  shows "w \<in> set points" and "g < gap w"
    and "\<forall>q\<in>set points. g < gap q \<longrightarrow> gap w \<le> gap q"
proof -
  let ?ms = "filter (\<lambda>p. g < gap p) (rev (sort_key gap (rev points)))"
  have ne: "?ms \<noteq> []" using assms(1) by (auto simp: filter_empty_conv)
  then have "w \<in> set ?ms" unfolding w_def by (rule last_in_set)
  then show "w \<in> set points" and "g < gap w" by auto
  have "rev ?ms = filter (\<lambda>p. g < gap p) (sort_key gap (rev points))"
    by (simp add: rev_filter)
  then have srt: "sorted (map gap (rev ?ms))"
    by (simp only: sorted_filter sorted_sort_key)
  show "\<forall>q\<in>set points. g < gap q \<longrightarrow> gap w \<le> gap q"
  proof (intro ballI impI)
    fix q assume "q \<in> set points" and "g < gap q"
    then have "q \<in> set ?ms" by simp
    then show "gap w \<le> gap q"
      unfolding w_def using rev_sorted_key_last_least [OF srt] by blast
  qed
qed


lemma select_buy_amount_in_points:
  "select_buy_amount g points = Some a \<Longrightarrow> \<exists>p\<in>set points. gap p < g \<and> a = amount p"
proof -
  assume h: "select_buy_amount g points = Some a"
  let ?ms = "filter (\<lambda>p. gap p < g) (sort_key gap points)"
  from h have ne: "?ms \<noteq> []" and a: "a = amount (last ?ms)"
    by (auto simp: select_buy_amount_last split: if_splits)
  from ne have "last ?ms \<in> set ?ms" by (rule last_in_set)
  with a show ?thesis by auto
qed

lemma emit_orders_exit_points:
  "emit_orders (ctx\<lparr>exit_points := xs\<rparr>) a ee ep xe xp = emit_orders ctx a ee ep xe xp"
  by (simp add: emit_orders_def Let_def cong: sum.case_cong)

lemma size_order_exit_points:
  "size_order (ctx\<lparr>exit_points := xs\<rparr>) a ee ep xe xp = size_order ctx a ee ep xe xp"
  by (simp add: size_order_def emit_orders_exit_points Let_def
      cong: sum.case_cong option.case_cong if_cong)

lemma place_order_exit_points:
  "place_order (ctx\<lparr>exit_points := xs\<rparr>) amt bp sp action = place_order ctx amt bp sp action"
  by (simp add: place_order_def order_roles_def size_order_exit_points
      cong: sum.case_cong)

text \<open>
  C1. For every list of entry points and every gap that exceeds the threshold of at
  least one of them, the amount selected is that of the last point, in ascending order of
  threshold, whose threshold the gap exceeds strictly; this point has the largest
  threshold among those exceeded, and when its amount is not zero the enter order is
  placed with it. For the points (0.03, 0.05), (0.04, 0.1), (0.05, 0.5) and the gap 0.045
  the selected amount is 0.1.
\<close>

theorem entry_selection:
  assumes "\<exists>p\<in>set points. gap p < g"
  shows "(let w = last (filter (\<lambda>p. gap p < g) (sorted_py gap False points)) in
            select_buy_amount g points = Some (amount w) \<and>
            w \<in> set points \<and> gap w < g \<and>
            (\<forall>q\<in>set points. gap q < g \<longrightarrow> gap q \<le> gap w) \<and>
            (\<forall>ctx bp sp. entry_points ctx = points \<and> amount w \<noteq> 0 \<longrightarrow>
               trigger ctx g bp sp = place_order ctx (amount w) bp sp ''enter''))
         \<and> select_buy_amount (45 / 1000)
             [\<lparr>gap = 3 / 100, amount = 5 / 100\<rparr>,
              \<lparr>gap = 4 / 100, amount = 1 / 10\<rparr>,
              \<lparr>gap = 5 / 100, amount = 1 / 2\<rparr>] = Some (1 / 10)"
proof -
  let ?w = "last (filter (\<lambda>p. gap p < g) (sort_key gap points))"
  have ne: "filter (\<lambda>p. gap p < g) (sort_key gap points) \<noteq> []"
    using assms by (auto simp: filter_empty_conv)
  have sel: "select_buy_amount g points = Some (amount ?w)"
    using ne by (simp add: select_buy_amount_last)
  have trig: "trigger ctx g bp sp = place_order ctx (amount ?w) bp sp ''enter''"
    if "entry_points ctx = points" and "amount ?w \<noteq> 0" for ctx bp sp
    using that sel by (simp add: trigger_def)
  have ex: "select_buy_amount (45 / 1000)
             [\<lparr>gap = 3 / 100, amount = 5 / 100\<rparr>,
              \<lparr>gap = 4 / 100, amount = 1 / 10\<rparr>,
              \<lparr>gap = 5 / 100, amount = 1 / 2\<rparr>] = Some (1 / 10)"
    by (simp add: select_buy_amount_def sorted_py_def)
  show ?thesis
    using sel entry_winner [OF assms] trig ex
    by (simp add: Let_def sorted_py_def)
qed

theorem entry_selection_witness:
  "(\<exists>p\<in>set [\<lparr>gap = 3 / 100, amount = 5 / 100\<rparr>,
              \<lparr>gap = 4 / 100, amount = 1 / 10\<rparr>,
              \<lparr>gap = 5 / 100, amount = 1 / 2\<rparr>]. gap p < 45 / 1000) \<and>
   last (filter (\<lambda>p. gap p < 45 / 1000)
     (sorted_py gap False
        [\<lparr>gap = 3 / 100, amount = 5 / 100\<rparr>,
         \<lparr>gap = 4 / 100, amount = 1 / 10\<rparr>,
         \<lparr>gap = 5 / 100, amount = 1 / 2\<rparr>])) = \<lparr>gap = 4 / 100, amount = 1 / 10\<rparr> \<and>
   select_buy_amount (45 / 1000)
     [\<lparr>gap = 3 / 100, amount = 5 / 100\<rparr>,
      \<lparr>gap = 4 / 100, amount = 1 / 10\<rparr>,
      \<lparr>gap = 5 / 100, amount = 1 / 2\<rparr>] = Some (1 / 10) \<and>
   trigger (sample_context (bittrex 100) (bitfinex [(''neo'', 5)])) (45 / 1000) 100 (1045 / 10) =
     place_order (sample_context (bittrex 100) (bitfinex [(''neo'', 5)])) (1 / 10) 100 (1045 / 10) ''enter''"
proof -
  let ?ps = "[\<lparr>gap = 3 / 100, amount = 5 / 100\<rparr>,
              \<lparr>gap = 4 / 100, amount = 1 / 10\<rparr>,
              \<lparr>gap = 5 / 100, amount = 1 / 2\<rparr>]"
  have h: "\<exists>p\<in>set ?ps. gap p < 45 / 1000" by simp
  have w: "last (filter (\<lambda>p. gap p < 45 / 1000) (sorted_py gap False ?ps)) =
             \<lparr>gap = 4 / 100, amount = 1 / 10\<rparr>"
    by (simp add: sorted_py_def)
  have e: "entry_points (sample_context (bittrex 100) (bitfinex [(''neo'', 5)])) = ?ps"
    by (simp add: sample_context_def)
  show ?thesis
    using entry_selection [OF h] h w e by (simp add: Let_def)
qed

text \<open>
  C2. The exit points are read only when no entry amount was selected: with entry points
  whose amounts are not zero (the source tests the selected amount for truth, and the
  rule tables of the specification hold positive amounts only), a selected entry amount
  places the enter order and the result does not depend on the exit points. Otherwise the
  exit amount is that of the last point, in descending order of threshold, whose
  threshold the gap is strictly below; this point has the least threshold among those
  undercut. With the single exit point (-0.02, 0.5) and no entry amount selected, the
  gap -0.03 places the exit order with amount 0.5 and the gap -0.01 places no order.
\<close>

theorem exit_selection:
  assumes "\<forall>p\<in>set (entry_points ctx). amount p \<noteq> 0"
  shows "(select_buy_amount g (entry_points ctx) \<noteq> None \<longrightarrow>
            trigger ctx g bp sp =
              place_order ctx (the (select_buy_amount g (entry_points ctx))) bp sp ''enter'' \<and>
            (\<forall>xs. trigger (ctx\<lparr>exit_points := xs\<rparr>) g bp sp = trigger ctx g bp sp))
       \<and> (select_buy_amount g (entry_points ctx) = None \<longrightarrow>
            trigger ctx g bp sp =
              (if truthy (select_sell_amount g (exit_points ctx))
               then place_order ctx (the (select_sell_amount g (exit_points ctx))) bp sp ''exit''
               else ([], None)))
       \<and> ((\<exists>q\<in>set (exit_points ctx). g < gap q) \<longrightarrow>
            (let w = last (filter (\<lambda>q. g < gap q) (sorted_py gap True (exit_points ctx))) in
               select_sell_amount g (exit_points ctx) = Some (amount w) \<and>
               w \<in> set (exit_points ctx) \<and> g < gap w \<and>
               (\<forall>q\<in>set (exit_points ctx). g < gap q \<longrightarrow> gap w \<le> gap q)))
       \<and> ((\<forall>q\<in>set (exit_points ctx). \<not> g < gap q) \<longrightarrow>
            select_sell_amount g (exit_points ctx) = None)
       \<and> (exit_points ctx = [\<lparr>gap = - (2 / 100), amount = 1 / 2\<rparr>] \<longrightarrow>
            (select_buy_amount (- (3 / 100)) (entry_points ctx) = None \<longrightarrow>
               trigger ctx (- (3 / 100)) bp sp = place_order ctx (1 / 2) bp sp ''exit'') \<and>
            (select_buy_amount (- (1 / 100)) (entry_points ctx) = None \<longrightarrow>
               trigger ctx (- (1 / 100)) bp sp = ([], None)))"
proof -
  have enter: "trigger ctx g bp sp = place_order ctx a bp sp ''enter'' \<and>
      (\<forall>xs. trigger (ctx\<lparr>exit_points := xs\<rparr>) g bp sp = trigger ctx g bp sp)"
    if h: "select_buy_amount g (entry_points ctx) = Some a" for a
  proof -
    from select_buy_amount_in_points [OF h] assms have "a \<noteq> 0" by auto
    with h show ?thesis
      by (simp add: trigger_def place_order_exit_points)
  qed
  have p1: "select_buy_amount g (entry_points ctx) \<noteq> None \<longrightarrow>
            trigger ctx g bp sp =
              place_order ctx (the (select_buy_amount g (entry_points ctx))) bp sp ''enter'' \<and>
            (\<forall>xs. trigger (ctx\<lparr>exit_points := xs\<rparr>) g bp sp = trigger ctx g bp sp)"
    using enter by auto
  have p2: "select_buy_amount g (entry_points ctx) = None \<longrightarrow>
            trigger ctx g bp sp =
              (if truthy (select_sell_amount g (exit_points ctx))
               then place_order ctx (the (select_sell_amount g (exit_points ctx))) bp sp ''exit''
               else ([], None))"
    by (simp add: trigger_def)
  have p3: "(\<exists>q\<in>set (exit_points ctx). g < gap q) \<longrightarrow>
            (let w = last (filter (\<lambda>q. g < gap q) (sorted_py gap True (exit_points ctx))) in
               select_sell_amount g (exit_points ctx) = Some (amount w) \<and>
               w \<in> set (exit_points ctx) \<and> g < gap w \<and>
               (\<forall>q\<in>set (exit_points ctx). g < gap q \<longrightarrow> gap w \<le> gap q))"
  proof
    assume ex: "\<exists>q\<in>set (exit_points ctx). g < gap q"
    then have "filter (\<lambda>q. g < gap q) (rev (sort_key gap (rev (exit_points ctx)))) \<noteq> []"
      by (auto simp: filter_empty_conv)
    then have "select_sell_amount g (exit_points ctx) =
        Some (amount (last (filter (\<lambda>q. g < gap q) (rev (sort_key gap (rev (exit_points ctx)))))))"
      by (simp add: select_sell_amount_last)
    with exit_winner [OF ex] show "let w = last (filter (\<lambda>q. g < gap q) (sorted_py gap True (exit_points ctx))) in
               select_sell_amount g (exit_points ctx) = Some (amount w) \<and>
               w \<in> set (exit_points ctx) \<and> g < gap w \<and>
               (\<forall>q\<in>set (exit_points ctx). g < gap q \<longrightarrow> gap w \<le> gap q)"
      by (simp add: Let_def sorted_py_def)
  qed
  have p4: "(\<forall>q\<in>set (exit_points ctx). \<not> g < gap q) \<longrightarrow>
            select_sell_amount g (exit_points ctx) = None"
    by (auto simp: select_sell_amount_last filter_empty_conv)
  have p5: "exit_points ctx = [\<lparr>gap = - (2 / 100), amount = 1 / 2\<rparr>] \<longrightarrow>
            (select_buy_amount (- (3 / 100)) (entry_points ctx) = None \<longrightarrow>
               trigger ctx (- (3 / 100)) bp sp = place_order ctx (1 / 2) bp sp ''exit'') \<and>
            (select_buy_amount (- (1 / 100)) (entry_points ctx) = None \<longrightarrow>
               trigger ctx (- (1 / 100)) bp sp = ([], None))"
    by (simp add: trigger_def select_sell_amount_def sorted_py_def)
  from p1 p2 p3 p4 p5 show ?thesis by blast
qed

theorem exit_selection_witness:
  "select_buy_amount (- (3 / 100))
     (entry_points (sample_context (bittrex 100) (bitfinex [(''neo'', 5)]))) = None \<and>
   select_sell_amount (- (3 / 100))
     (exit_points (sample_context (bittrex 100) (bitfinex [(''neo'', 5)]))) = Some (1 / 2) \<and>
   trigger (sample_context (bittrex 100) (bitfinex [(''neo'', 5)])) (- (3 / 100)) 100 97 =
     place_order (sample_context (bittrex 100) (bitfinex [(''neo'', 5)])) (1 / 2) 100 97 ''exit'' \<and>
   trigger (sample_context (bittrex 100) (bitfinex [(''neo'', 5)])) (- (1 / 100)) 100 99 =
     ([], None)"
proof -
  let ?c = "sample_context (bittrex 100) (bitfinex [(''neo'', 5)])"
  have nz: "\<forall>p\<in>set (entry_points ?c). amount p \<noteq> 0"
    by (simp add: sample_context_def)
  have x: "exit_points ?c = [\<lparr>gap = - (2 / 100), amount = 1 / 2\<rparr>]"
    by (simp add: sample_context_def)
  have b3: "select_buy_amount (- (3 / 100)) (entry_points ?c) = None"
    by (simp add: sample_context_def select_buy_amount_def sorted_py_def)
  have b1: "select_buy_amount (- (1 / 100)) (entry_points ?c) = None"
    by (simp add: sample_context_def select_buy_amount_def sorted_py_def)
  have s3: "select_sell_amount (- (3 / 100)) (exit_points ?c) = Some (1 / 2)"
    by (simp add: sample_context_def select_sell_amount_def sorted_py_def)
  from exit_selection [OF nz, of "- (3 / 100)" 100 97]
       exit_selection [OF nz, of "- (1 / 100)" 100 99] x b3 b1 s3
  show ?thesis by simp
qed

section \<open>Properties of place_order\<close>

text \<open>
  In the lemmas and theorems below, \<open>order_roles ctx bp sp action = Inr (ee, ep, xe, xp)\<close>
  names the buy leg \<open>ee\<close> with its price \<open>ep\<close> and the sell leg \<open>xe\<close> with its price
  \<open>xp\<close>, for either action.
\<close>

lemma getitem_Some: "map_of d k = Some v \<Longrightarrow> getitem d k = Inr v"
  by (simp add: getitem_def)

lemma emit_orders_bound:
  assumes "map_of (trading_pairs ctx) (name ee) = Some ea"
      and "map_of (trading_pairs ctx) (name xe) = Some xa"
  shows "emit_orders ctx a ee ep xe xp =
           ([\<lparr>order_asset = ea, order_amount = a,
              limit_price = ep * (1 + SLIPPAGE_ALLOWED ctx)\<rparr>,
             \<lparr>order_asset = xa, order_amount = - a,
              limit_price = xp * (1 - SLIPPAGE_ALLOWED ctx)\<rparr>], None)"
  using assms by (simp add: emit_orders_def getitem_Some)

lemma order_roles_cases:
  assumes "order_roles ctx bp sp action = Inr (ee, ep, xe, xp)"
  shows "(action = ''enter'' \<and> ee = buying_exchange ctx \<and> ep = bp \<and>
            xe = selling_exchange ctx \<and> xp = sp) \<or>
         (action = ''exit'' \<and> ee = selling_exchange ctx \<and> ep = sp \<and>
            xe = buying_exchange ctx \<and> xp = bp)"
  using assms by (auto simp: order_roles_def split: if_splits)

lemma roles_bound:
  assumes "bound_pairs ctx" and "order_roles ctx bp sp action = Inr (ee, ep, xe, xp)"
  shows "\<exists>ea xa. map_of (trading_pairs ctx) (name ee) = Some ea \<and>
                 map_of (trading_pairs ctx) (name xe) = Some xa"
  using order_roles_cases [OF assms(2)] assms(1) by (auto simp: bound_pairs_def)

lemma place_order_roles:
  "order_roles ctx bp sp action = Inr (ee, ep, xe, xp) \<Longrightarrow>
     place_order ctx amt bp sp action = size_order ctx amt ee ep xe xp"
  by (simp add: place_order_def)

lemma size_order_held:
  assumes "map_of (trading_pairs ctx) (name (selling_exchange ctx)) = Some pair"
      and "get_balances xe (market_currency pair) = Some m"
  shows "size_order ctx amt ee ep xe xp =
           (if portfolio_cash ee < amt * ep then
              (if ep = 0 then ([], Some ZeroDivisionError)
               else emit_orders ctx (portfolio_cash ee / ep) ee ep xe xp)
            else if m < amt then ([], None)
            else emit_orders ctx amt ee ep xe xp)"
  using assms by (simp add: size_order_def getitem_Some truediv_def)

lemma size_order_not_held:
  assumes "map_of (trading_pairs ctx) (name (selling_exchange ctx)) = Some pair"
      and "get_balances xe (market_currency pair) = None"
  shows "size_order ctx amt ee ep xe xp = ([], None)"
  using assms by (simp add: size_order_def getitem_Some)

text \<open>Evaluation on the sample inputs.\<close>

lemmas sample_defs = sample_context_def bittrex_def bitfinex_def sample_exchange_def
  sample_symbol_def

lemmas run_defs = place_order_def order_roles_def size_order_def emit_orders_def
  getitem_def truediv_def

lemma sample_bound: "bound_pairs (sample_context (bittrex c) (bitfinex held))"
  by (simp add: bound_pairs_def sample_defs)

lemma sample_roles_enter:
  "order_roles (sample_context b s) bp sp ''enter'' = Inr (b, bp, s, sp)"
  by (simp add: order_roles_def sample_context_def)

lemma sample_selling_pair:
  "map_of (trading_pairs (sample_context (bittrex c) (bitfinex held)))
     (name (selling_exchange (sample_context (bittrex c) (bitfinex held)))) =
   Some (sample_symbol ''neo_eth'' ''bitfinex'')"
  by (simp add: sample_defs)

section \<open>Missing and insufficient inventory\<close>

text \<open>
  C3, as stated, fails: with the market currency present in the balances of the sell leg
  at balance 0, cash 100, buying price 10 and requested amount 20, the clamp of line 81
  fires before the inventory test of line 93 and two orders of amount 10 are placed.
\<close>

theorem zero_balance_counterexample:
  "get_balances (selling_exchange (sample_context (bittrex 100) (bitfinex [(''neo'', 0)])))
     ''neo'' = Some 0 \<and>
   place_order (sample_context (bittrex 100) (bitfinex [(''neo'', 0)])) 20 10 12 ''enter'' =
     ([\<lparr>order_asset = sample_symbol ''neo_eth'' ''bittrex'', order_amount = 10,
         limit_price = 51 / 5\<rparr>,
       \<lparr>order_asset = sample_symbol ''neo_eth'' ''bitfinex'', order_amount = - 10,
         limit_price = 294 / 25\<rparr>], None)"
  by (simp add: sample_defs run_defs)

text \<open>
  C3, amended. When the balances of the sell leg do not contain the market currency, no
  order is placed and no exception is raised, whatever the amount, the prices and the
  cash. When they contain it with balance 0, no order is placed provided the requested
  amount is positive and the cash of the buy leg covers it.
\<close>

theorem missing_or_zero_inventory:
  assumes "order_roles ctx bp sp action = Inr (ee, ep, xe, xp)"
      and "map_of (trading_pairs ctx) (name (selling_exchange ctx)) = Some pair"
  shows "(get_balances xe (market_currency pair) = None \<longrightarrow>
            place_order ctx amt bp sp action = ([], None))
       \<and> (get_balances xe (market_currency pair) = Some 0 \<and> 0 < amt \<and>
            amt * ep \<le> portfolio_cash ee \<longrightarrow>
            place_order ctx amt bp sp action = ([], None))"
proof -
  have "place_order ctx amt bp sp action = ([], None)"
    if "get_balances xe (market_currency pair) = None"
    using that assms by (simp add: place_order_roles size_order_not_held)
  moreover have "place_order ctx amt bp sp action = ([], None)"
    if "get_balances xe (market_currency pair) = Some 0" and "0 < amt"
      and "amt * ep \<le> portfolio_cash ee"
    using that assms by (simp add: place_order_roles size_order_held)
  ultimately show ?thesis by blast
qed

theorem missing_or_zero_inventory_witness:
  "place_order (sample_context (bittrex 100) (bitfinex [])) 20 10 12 ''enter'' = ([], None) \<and>
   place_order (sample_context (bittrex 1000) (bitfinex [(''neo'', 0)])) 20 10 12 ''enter'' =
     ([], None)"
proof -
  have a: "get_balances (bitfinex []) (market_currency (sample_symbol ''neo_eth'' ''bitfinex'')) = None"
    by (simp add: sample_defs)
  have b: "get_balances (bitfinex [(''neo'', 0)])
             (market_currency (sample_symbol ''neo_eth'' ''bitfinex'')) = Some 0 \<and>
           (0::real) < 20 \<and> 20 * 10 \<le> portfolio_cash (bittrex 1000)"
    by (simp add: sample_defs)
  from missing_or_zero_inventory [OF sample_roles_enter sample_selling_pair, of "[]" 100 20 10 12]
       missing_or_zero_inventory [OF sample_roles_enter sample_selling_pair, of "[(''neo'', 0)]" 1000 20 10 12]
       a b
  show ?thesis by simp
qed

text \<open>
  C4. With the market currency held by the sell leg: when the cash is short, the amount
  is clamped and both orders are placed, whether the inventory is short as well or not;
  the inventory test aborts with no order only when the cash is not short.
\<close>

theorem cash_before_inventory:
  assumes "bound_pairs ctx"
      and "order_roles ctx bp sp action = Inr (ee, ep, xe, xp)"
      and "map_of (trading_pairs ctx) (name (selling_exchange ctx)) = Some pair"
      and "get_balances xe (market_currency pair) = Some m"
  shows "(portfolio_cash ee < amt * ep \<and> m < amt \<and> ep \<noteq> 0 \<longrightarrow>
            (\<exists>buy sell. place_order ctx amt bp sp action = ([buy, sell], None) \<and>
               order_amount buy = portfolio_cash ee / ep \<and>
               order_amount sell = - (portfolio_cash ee / ep)))
       \<and> (portfolio_cash ee < amt * ep \<and> \<not> m < amt \<and> ep \<noteq> 0 \<longrightarrow>
            (\<exists>buy sell. place_order ctx amt bp sp action = ([buy, sell], None) \<and>
               order_amount buy = portfolio_cash ee / ep \<and>
               order_amount sell = - (portfolio_cash ee / ep)))
       \<and> (\<not> portfolio_cash ee < amt * ep \<and> m < amt \<longrightarrow>
            place_order ctx amt bp sp action = ([], None))"
proof -
  obtain ea xa where ea: "map_of (trading_pairs ctx) (name ee) = Some ea"
    and xa: "map_of (trading_pairs ctx) (name xe) = Some xa"
    using roles_bound [OF assms(1,2)] by blast
  have so: "place_order ctx amt bp sp action =
           (if portfolio_cash ee < amt * ep then
              (if ep = 0 then ([], Some ZeroDivisionError)
               else emit_orders ctx (portfolio_cash ee / ep) ee ep xe xp)
            else if m < amt then ([], None)
            else emit_orders ctx amt ee ep xe xp)"
    by (simp only: place_order_roles [OF assms(2)] size_order_held [OF assms(3,4)])
  show ?thesis
    by (simp add: so emit_orders_bound [OF ea xa])
qed

theorem cash_before_inventory_witness:
  "portfolio_cash (bittrex 100) < 20 * 10 \<and> (5::real) < 20 \<and>
   fst (place_order (sample_context (bittrex 100) (bitfinex [(''neo'', 5)])) 20 10 12 ''enter'')
     \<noteq> [] \<and>
   \<not> portfolio_cash (bittrex 1000) < 20 * 10 \<and>
   place_order (sample_context (bittrex 1000) (bitfinex [(''neo'', 5)])) 20 10 12 ''enter'' =
     ([], None)"
proof -
  have h: "get_balances (bitfinex [(''neo'', 5)])
             (market_currency (sample_symbol ''neo_eth'' ''bitfinex'')) = Some 5"
    by (simp add: sample_defs)
  have p: "portfolio_cash (bittrex 100) < 20 * 10 \<and> (5::real) < 20 \<and> (10::real) \<noteq> 0"
    by (simp add: sample_defs)
  have q: "\<not> portfolio_cash (bittrex 1000) < 20 * 10 \<and> (5::real) < 20"
    by (simp add: sample_defs)
  note t1 = cash_before_inventory [OF sample_bound sample_roles_enter sample_selling_pair h, of 100 20 10 12]
  note t2 = cash_before_inventory [OF sample_bound sample_roles_enter sample_selling_pair h, of 1000 20 10 12]
  from t1 p obtain buy sell where
    "place_order (sample_context (bittrex 100) (bitfinex [(''neo'', 5)])) 20 10 12 ''enter'' =
       ([buy, sell], None)"
    by blast
  then have ne: "fst (place_order (sample_context (bittrex 100) (bitfinex [(''neo'', 5)]))
      20 10 12 ''enter'') \<noteq> []"
    by simp
  from t2 q have a: "place_order (sample_context (bittrex 1000) (bitfinex [(''neo'', 5)]))
      20 10 12 ''enter'' = ([], None)"
    by blast
  from ne a p q show ?thesis by blast
qed

section \<open>The cash clamp and the order pair\<close>

text \<open>
  The outcome of \<open>place_order\<close> on a context that binds both exchanges, when the sell
  leg holds the market currency.
\<close>

lemma place_order_held:
  assumes "bound_pairs ctx"
      and "order_roles ctx bp sp action = Inr (ee, ep, xe, xp)"
      and "map_of (trading_pairs ctx) (name (selling_exchange ctx)) = Some pair"
      and "get_balances xe (market_currency pair) = Some m"
  shows "\<exists>ea xa.
    map_of (trading_pairs ctx) (name ee) = Some ea \<and>
    map_of (trading_pairs ctx) (name xe) = Some xa \<and>
    place_order ctx amt bp sp action =
       (if portfolio_cash ee < amt * ep then
          (if ep = 0 then ([], Some ZeroDivisionError)
           else ([\<lparr>order_asset = ea, order_amount = portfolio_cash ee / ep,
                   limit_price = ep * (1 + SLIPPAGE_ALLOWED ctx)\<rparr>,
                  \<lparr>order_asset = xa, order_amount = - (portfolio_cash ee / ep),
                   limit_price = xp * (1 - SLIPPAGE_ALLOWED ctx)\<rparr>], None))
        else if m < amt then ([], None)
        else ([\<lparr>order_asset = ea, order_amount = amt,
                limit_price = ep * (1 + SLIPPAGE_ALLOWED ctx)\<rparr>,
               \<lparr>order_asset = xa, order_amount = - amt,
                limit_price = xp * (1 - SLIPPAGE_ALLOWED ctx)\<rparr>], None))"
proof -
  obtain ea xa where ea: "map_of (trading_pairs ctx) (name ee) = Some ea"
    and xa: "map_of (trading_pairs ctx) (name xe) = Some xa"
    using roles_bound [OF assms(1,2)] by blast
  have "place_order ctx amt bp sp action =
           (if portfolio_cash ee < amt * ep then
              (if ep = 0 then ([], Some ZeroDivisionError)
               else emit_orders ctx (portfolio_cash ee / ep) ee ep xe xp)
            else if m < amt then ([], None)
            else emit_orders ctx amt ee ep xe xp)"
    by (simp only: place_order_roles [OF assms(2)] size_order_held [OF assms(3,4)])
  then show ?thesis
    using ea xa by (simp only: emit_orders_bound [OF ea xa]) blast
qed

text \<open>
  C5, as stated, fails: the return of line 79 precedes the clamp. With cash 100, buying
  price 10 and requested amount 20, so that the cash is short, and balances of the sell
  leg that do not contain the market currency, no order is placed.
\<close>

theorem missing_currency_counterexample:
  "portfolio_cash (buying_exchange (sample_context (bittrex 100) (bitfinex []))) < 20 * 10 \<and>
   place_order (sample_context (bittrex 100) (bitfinex [])) 20 10 12 ''enter'' = ([], None)"
  by (simp add: sample_defs run_defs)

text \<open>
  C5, amended. For a requested amount above 0 and a buying price other than 0, when the
  balances of the sell leg contain the market currency and the cash of the buy leg is
  below amount times price, the amount becomes cash divided by price and both orders are
  placed with it; with cash 100, price 10 and amount 20 the two orders carry 10 and -10.
\<close>

theorem cash_shortage_clamp:
  assumes "bound_pairs ctx"
      and "order_roles ctx bp sp action = Inr (ee, ep, xe, xp)"
      and "map_of (trading_pairs ctx) (name (selling_exchange ctx)) = Some pair"
      and "get_balances xe (market_currency pair) = Some m"
      and "0 < amt" and "ep \<noteq> 0"
      and "portfolio_cash ee < amt * ep"
  shows "\<exists>buy sell. place_order ctx amt bp sp action = ([buy, sell], None) \<and>
           order_amount buy = portfolio_cash ee / ep \<and>
           order_amount sell = - (portfolio_cash ee / ep) \<and>
           (portfolio_cash ee = 100 \<and> ep = 10 \<and> amt = 20 \<longrightarrow>
              order_amount buy = 10 \<and> order_amount sell = - 10)"
proof -
  from place_order_held [OF assms(1-4), of amt] obtain ea xa where
    "place_order ctx amt bp sp action =
       (if portfolio_cash ee < amt * ep then
          (if ep = 0 then ([], Some ZeroDivisionError)
           else ([\<lparr>order_asset = ea, order_amount = portfolio_cash ee / ep,
                   limit_price = ep * (1 + SLIPPAGE_ALLOWED ctx)\<rparr>,
                  \<lparr>order_asset = xa, order_amount = - (portfolio_cash ee / ep),
                   limit_price = xp * (1 - SLIPPAGE_ALLOWED ctx)\<rparr>], None))
        else if m < amt then ([], None)
        else ([\<lparr>order_asset = ea, order_amount = amt,
                limit_price = ep * (1 + SLIPPAGE_ALLOWED ctx)\<rparr>,
               \<lparr>order_asset = xa, order_amount = - amt,
                limit_price = xp * (1 - SLIPPAGE_ALLOWED ctx)\<rparr>], None))"
    by blast
  with assms(6,7) show ?thesis by simp
qed

theorem cash_shortage_clamp_witness:
  "place_order (sample_context (bittrex 100) (bitfinex [(''neo'', 50)])) 20 10 12 ''enter'' =
     ([\<lparr>order_asset = sample_symbol ''neo_eth'' ''bittrex'', order_amount = 10,
         limit_price = 51 / 5\<rparr>,
       \<lparr>order_asset = sample_symbol ''neo_eth'' ''bitfinex'', order_amount = - 10,
         limit_price = 294 / 25\<rparr>], None)"
proof -
  have h: "get_balances (bitfinex [(''neo'', 50)])
             (market_currency (sample_symbol ''neo_eth'' ''bitfinex'')) = Some 50"
    by (simp add: sample_defs)
  have c: "portfolio_cash (bittrex 100) = 100" by (simp add: sample_defs)
  have p: "(0::real) < 20" "(10::real) \<noteq> 0" "portfolio_cash (bittrex 100) < 20 * 10"
    by (simp_all add: sample_defs)
  from cash_shortage_clamp [OF sample_bound
      sample_roles_enter [of "bittrex 100" "bitfinex [(''neo'', 50)]" 10 12]
      sample_selling_pair h p]
  obtain buy sell where
    r: "place_order (sample_context (bittrex 100) (bitfinex [(''neo'', 50)])) 20 10 12 ''enter'' =
       ([buy, sell], None)"
    and a: "order_amount buy = 10" "order_amount sell = - 10"
    using c by auto
  have e: "place_order (sample_context (bittrex 100) (bitfinex [(''neo'', 50)])) 20 10 12 ''enter'' =
     ([\<lparr>order_asset = sample_symbol ''neo_eth'' ''bittrex'', order_amount = 10,
         limit_price = 51 / 5\<rparr>,
       \<lparr>order_asset = sample_symbol ''neo_eth'' ''bitfinex'', order_amount = - 10,
         limit_price = 294 / 25\<rparr>], None)"
    by (simp add: sample_defs run_defs)
  from r a e show ?thesis by simp
qed

lemma emit_orders_pair:
  assumes "fst (emit_orders ctx a ee ep xe xp) = [buy, sell]"
  shows "order_amount buy = a \<and> order_amount sell = - a \<and>
         limit_price buy = ep * (1 + SLIPPAGE_ALLOWED ctx) \<and>
         limit_price sell = xp * (1 - SLIPPAGE_ALLOWED ctx)"
  using assms by (auto simp: emit_orders_def Let_def split: sum.splits)

lemma size_order_emits:
  assumes "fst (size_order ctx amt ee ep xe xp) \<noteq> []"
  shows "\<exists>a. size_order ctx amt ee ep xe xp = emit_orders ctx a ee ep xe xp"
  using assms
  by (auto simp: size_order_def Let_def truediv_def split: sum.splits option.splits if_splits)

text \<open>
  C7, as stated, fails in its sign clause: with no cash on the buy leg, requested amount
  20, buying price 10 and the market currency held by the sell leg, the clamp of line 82
  sets the amount to 0 and the two orders are placed with amount 0, so the buy order does
  not carry a positive amount.
\<close>

theorem zero_amount_pair_counterexample:
  "fst (place_order (sample_context (bittrex 0) (bitfinex [(''neo'', 50)])) 20 10 12 ''enter'') =
     [\<lparr>order_asset = sample_symbol ''neo_eth'' ''bittrex'', order_amount = 0,
        limit_price = 51 / 5\<rparr>,
      \<lparr>order_asset = sample_symbol ''neo_eth'' ''bitfinex'', order_amount = 0,
        limit_price = 294 / 25\<rparr>] \<and>
   \<not> 0 < order_amount
          (hd (fst (place_order (sample_context (bittrex 0) (bitfinex [(''neo'', 50)]))
             20 10 12 ''enter'')))"
  by (simp add: sample_defs run_defs)

text \<open>
  C7, amended. On a context that binds both exchanges, whenever \<open>place_order\<close> places
  an order it places exactly two and raises nothing: the buy order carries the amount,
  requested or clamped to cash divided by price, and the sell order carries its negation,
  so the two always have the same magnitude. For a requested amount and a buy price above
  0, the amount of the buy order is positive, and that of the sell order negative, exactly
  when the cash of the buy leg is positive.
\<close>

theorem paired_orders:
  assumes "bound_pairs ctx"
      and "fst (place_order ctx amt bp sp action) \<noteq> []"
  shows "\<exists>buy sell ee ep xe xp.
           place_order ctx amt bp sp action = ([buy, sell], None) \<and>
           order_amount sell = - order_amount buy \<and>
           \<bar>order_amount sell\<bar> = \<bar>order_amount buy\<bar> \<and>
           order_roles ctx bp sp action = Inr (ee, ep, xe, xp) \<and>
           (order_amount buy = amt \<or> order_amount buy = portfolio_cash ee / ep) \<and>
           (0 < amt \<and> 0 < ep \<and> 0 < portfolio_cash ee \<longrightarrow>
              0 < order_amount buy \<and> order_amount sell < 0) \<and>
           (0 < amt \<and> 0 < ep \<longrightarrow>
              (0 < order_amount buy) = (0 < portfolio_cash ee) \<and>
              (order_amount sell < 0) = (0 < portfolio_cash ee))"
proof (cases "order_roles ctx bp sp action")
  case (Inl e)
  then have "place_order ctx amt bp sp action = ([], Some e)"
    by (simp add: place_order_def)
  with assms(2) show ?thesis by simp
next
  case (Inr r)
  obtain ee ep xe xp where r: "r = (ee, ep, xe, xp)" by (cases r) auto
  with Inr have roles: "order_roles ctx bp sp action = Inr (ee, ep, xe, xp)" by simp
  from assms(1) obtain pair where
    pair: "map_of (trading_pairs ctx) (name (selling_exchange ctx)) = Some pair"
    by (auto simp: bound_pairs_def)
  show ?thesis
  proof (cases "get_balances xe (market_currency pair)")
    case None
    then have "place_order ctx amt bp sp action = ([], None)"
      using roles pair by (simp add: place_order_roles size_order_not_held)
    with assms(2) show ?thesis by simp
  next
    case (Some m)
    from place_order_held [OF assms(1) roles pair Some, of amt] obtain ea xa where
      po: "place_order ctx amt bp sp action =
       (if portfolio_cash ee < amt * ep then
          (if ep = 0 then ([], Some ZeroDivisionError)
           else ([\<lparr>order_asset = ea, order_amount = portfolio_cash ee / ep,
                   limit_price = ep * (1 + SLIPPAGE_ALLOWED ctx)\<rparr>,
                  \<lparr>order_asset = xa, order_amount = - (portfolio_cash ee / ep),
                   limit_price = xp * (1 - SLIPPAGE_ALLOWED ctx)\<rparr>], None))
        else if m < amt then ([], None)
        else ([\<lparr>order_asset = ea, order_amount = amt,
                limit_price = ep * (1 + SLIPPAGE_ALLOWED ctx)\<rparr>,
               \<lparr>order_asset = xa, order_amount = - amt,
                limit_price = xp * (1 - SLIPPAGE_ALLOWED ctx)\<rparr>], None))"
      by blast
    consider (clamp) "portfolio_cash ee < amt * ep" "ep \<noteq> 0"
      | (full) "\<not> portfolio_cash ee < amt * ep" "\<not> m < amt"
      using assms(2) po by (auto split: if_splits)
    then show ?thesis
    proof cases
      case clamp
      with po roles show ?thesis by (simp add: zero_less_divide_iff)
    next
      case full
      have "0 < portfolio_cash ee" if "0 < amt" and "0 < ep"
      proof -
        from that have "0 < amt * ep" by simp
        with full(1) show ?thesis by simp
      qed
      with full po roles show ?thesis by auto
    qed
  qed
qed

theorem paired_orders_witness:
  "fst (place_order (sample_context (bittrex 1000) (bitfinex [(''neo'', 50)])) 20 10 12 ''enter'')
     \<noteq> [] \<and>
   place_order (sample_context (bittrex 1000) (bitfinex [(''neo'', 50)])) 20 10 12 ''enter'' =
     ([\<lparr>order_asset = sample_symbol ''neo_eth'' ''bittrex'', order_amount = 20,
         limit_price = 51 / 5\<rparr>,
       \<lparr>order_asset = sample_symbol ''neo_eth'' ''bitfinex'', order_amount = - 20,
         limit_price = 294 / 25\<rparr>], None) \<and>
   (\<exists>buy sell.
      place_order (sample_context (bittrex 1000) (bitfinex [(''neo'', 50)])) 20 10 12 ''enter'' =
        ([buy, sell], None) \<and>
      order_amount sell = - order_amount buy \<and> 0 < order_amount buy)"
proof -
  let ?c = "sample_context (bittrex 1000) (bitfinex [(''neo'', 50)])"
  have e: "place_order ?c 20 10 12 ''enter'' =
     ([\<lparr>order_asset = sample_symbol ''neo_eth'' ''bittrex'', order_amount = 20,
         limit_price = 51 / 5\<rparr>,
       \<lparr>order_asset = sample_symbol ''neo_eth'' ''bitfinex'', order_amount = - 20,
         limit_price = 294 / 25\<rparr>], None)"
    by (simp add: sample_defs run_defs)
  then have ne: "fst (place_order ?c 20 10 12 ''enter'') \<noteq> []" by simp
  from paired_orders [OF sample_bound ne] obtain buy sell where
    "place_order ?c 20 10 12 ''enter'' = ([buy, sell], None)"
    "order_amount sell = - order_amount buy"
    by blast
  with e ne show ?thesis by auto
qed

text \<open>
  C8. For every pair of orders that \<open>place_order\<close> places, the limit price of the buy
  order is the price of the buy leg times \<open>1 + SLIPPAGE_ALLOWED\<close> and that of the sell
  order is the price of the sell leg times \<open>1 - SLIPPAGE_ALLOWED\<close>; for a slippage of
  0.02 these are the prices times 1.02 and 0.98.
\<close>

theorem slippage_limit_prices:
  assumes "order_roles ctx bp sp action = Inr (ee, ep, xe, xp)"
      and "fst (place_order ctx amt bp sp action) = [buy, sell]"
  shows "limit_price buy = ep * (1 + SLIPPAGE_ALLOWED ctx) \<and>
         limit_price sell = xp * (1 - SLIPPAGE_ALLOWED ctx) \<and>
         (SLIPPAGE_ALLOWED ctx = 2 / 100 \<longrightarrow>
            limit_price buy = ep * (102 / 100) \<and> limit_price sell = xp * (98 / 100))"
proof -
  have so: "place_order ctx amt bp sp action = size_order ctx amt ee ep xe xp"
    by (rule place_order_roles [OF assms(1)])
  with assms(2) have "fst (size_order ctx amt ee ep xe xp) \<noteq> []" by simp
  from size_order_emits [OF this] obtain a where
    "size_order ctx amt ee ep xe xp = emit_orders ctx a ee ep xe xp" ..
  with so assms(2) have "fst (emit_orders ctx a ee ep xe xp) = [buy, sell]" by simp
  from emit_orders_pair [OF this] show ?thesis by simp
qed

theorem slippage_limit_prices_witness:
  "limit_price \<lparr>order_asset = sample_symbol ''neo_eth'' ''bittrex'', order_amount = 20,
         limit_price = 51 / 5\<rparr> = 10 * (102 / 100) \<and>
   limit_price \<lparr>order_asset = sample_symbol ''neo_eth'' ''bitfinex'', order_amount = - 20,
         limit_price = 294 / 25\<rparr> = 12 * (98 / 100) \<and>
   fst (place_order (sample_context (bittrex 1000) (bitfinex [(''neo'', 50)])) 20 10 12 ''enter'') =
     [\<lparr>order_asset = sample_symbol ''neo_eth'' ''bittrex'', order_amount = 20,
         limit_price = 51 / 5\<rparr>,
      \<lparr>order_asset = sample_symbol ''neo_eth'' ''bitfinex'', order_amount = - 20,
         limit_price = 294 / 25\<rparr>]"
proof -
  let ?c = "sample_context (bittrex 1000) (bitfinex [(''neo'', 50)])"
  have e: "fst (place_order ?c 20 10 12 ''enter'') =
     [\<lparr>order_asset = sample_symbol ''neo_eth'' ''bittrex'', order_amount = 20,
         limit_price = 51 / 5\<rparr>,
      \<lparr>order_asset = sample_symbol ''neo_eth'' ''bitfinex'', order_amount = - 20,
         limit_price = 294 / 25\<rparr>]"
    by (simp add: sample_defs run_defs)
  have s: "SLIPPAGE_ALLOWED ?c = 2 / 100" by (simp add: sample_context_def)
  from slippage_limit_prices
    [OF sample_roles_enter [of "bittrex 1000" "bitfinex [(''neo'', 50)]" 10 12] e] s e
  show ?thesis by blast
qed

text \<open>
  C10. With a requested amount and a buy price above 0, the market currency present in
  the balances of the sell leg and no cash on the buy leg, the clamp sets the amount to 0
  and two orders of amount 0 are placed.
\<close>

theorem zero_cash_zero_orders:
  assumes "bound_pairs ctx"
      and "order_roles ctx bp sp action = Inr (ee, ep, xe, xp)"
      and "map_of (trading_pairs ctx) (name (selling_exchange ctx)) = Some pair"
      and "get_balances xe (market_currency pair) = Some m"
      and "0 < amt" and "0 < ep"
      and "portfolio_cash ee = 0"
  shows "\<exists>buy sell. place_order ctx amt bp sp action = ([buy, sell], None) \<and>
           order_amount buy = 0 \<and> order_amount sell = 0"
proof -
  from place_order_held [OF assms(1-4), of amt] obtain ea xa where
    "place_order ctx amt bp sp action =
       (if portfolio_cash ee < amt * ep then
          (if ep = 0 then ([], Some ZeroDivisionError)
           else ([\<lparr>order_asset = ea, order_amount = portfolio_cash ee / ep,
                   limit_price = ep * (1 + SLIPPAGE_ALLOWED ctx)\<rparr>,
                  \<lparr>order_asset = xa, order_amount = - (portfolio_cash ee / ep),
                   limit_price = xp * (1 - SLIPPAGE_ALLOWED ctx)\<rparr>], None))
        else if m < amt then ([], None)
        else ([\<lparr>order_asset = ea, order_amount = amt,
                limit_price = ep * (1 + SLIPPAGE_ALLOWED ctx)\<rparr>,
               \<lparr>order_asset = xa, order_amount = - amt,
                limit_price = xp * (1 - SLIPPAGE_ALLOWED ctx)\<rparr>], None))"
    by blast
  with assms(5-7) show ?thesis by simp
qed

theorem zero_cash_zero_orders_witness:
  "place_order (sample_context (bittrex 0) (bitfinex [(''neo'', 50)])) 20 10 12 ''enter'' =
     ([\<lparr>order_asset = sample_symbol ''neo_eth'' ''bittrex'', order_amount = 0,
         limit_price = 51 / 5\<rparr>,
       \<lparr>order_asset = sample_symbol ''neo_eth'' ''bitfinex'', order_amount = 0,
         limit_price = 294 / 25\<rparr>], None)"
proof -
  let ?c = "sample_context (bittrex 0) (bitfinex [(''neo'', 50)])"
  have h: "get_balances (bitfinex [(''neo'', 50)])
             (market_currency (sample_symbol ''neo_eth'' ''bitfinex'')) = Some 50"
    by (simp add: sample_defs)
  have p: "(0::real) < 20" "(0::real) < 10" "portfolio_cash (bittrex 0) = 0"
    by (simp_all add: sample_defs)
  from zero_cash_zero_orders [OF sample_bound
      sample_roles_enter [of "bittrex 0" "bitfinex [(''neo'', 50)]" 10 12]
      sample_selling_pair h p]
  obtain buy sell where
    "place_order ?c 20 10 12 ''enter'' = ([buy, sell], None)"
    "order_amount buy = 0" "order_amount sell = 0"
    by blast
  moreover have "place_order ?c 20 10 12 ''enter'' =
     ([\<lparr>order_asset = sample_symbol ''neo_eth'' ''bittrex'', order_amount = 0,
         limit_price = 51 / 5\<rparr>,
       \<lparr>order_asset = sample_symbol ''neo_eth'' ''bitfinex'', order_amount = 0,
         limit_price = 294 / 25\<rparr>], None)"
    by (simp add: sample_defs run_defs)
  ultimately show ?thesis by simp
qed

section \<open>The open-order gate\<close>

text \<open>
  Every context that \<open>initialize\<close> returns binds both exchanges, and the sample context
  is the one it returns on the two sample exchanges.
\<close>

lemma initialize_bound_pairs:
  "initialize symbol exchanges = Inr ctx \<Longrightarrow> bound_pairs ctx"
  by (auto simp: initialize_def bound_pairs_def update_conv' split: sum.splits)

lemma initialize_sample:
  "initialize sample_symbol [(''bittrex'', b), (''bitfinex'', s)] = Inr (sample_context b s)"
  by (simp add: initialize_def getitem_def sample_context_def)

text \<open>The loop of lines 174 to 186 returns early exactly when some key has open orders.\<close>

lemma found_open_orders_keys:
  "set ks \<subseteq> fst ` set pairs \<Longrightarrow>
     found_open_orders get_open_orders pairs ks =
       Inr (\<exists>k\<in>set ks. \<exists>a. map_of pairs k = Some a \<and> get_open_orders a \<noteq> [])"
proof (induction ks)
  case Nil
  then show ?case by simp
next
  case (Cons k ks)
  then have "k \<in> fst ` set pairs" by simp
  then obtain a where a: "map_of pairs k = Some a"
    by (metis domD dom_map_of_conv_image_fst)
  with Cons show ?case by (auto simp: getitem_def)
qed

lemma found_open_orders_all:
  assumes "map_of pairs k = Some a" and "get_open_orders a \<noteq> []"
  shows "found_open_orders get_open_orders pairs (map fst pairs) = Inr True"
proof -
  from assms(1) have "k \<in> fst ` set pairs"
    by (metis domI dom_map_of_conv_image_fst)
  with assms show ?thesis
    by (subst found_open_orders_keys) auto
qed

text \<open>
  C6. When some exchange of \<open>trading_pairs\<close> has open orders for its trading pair,
  \<open>handle_data\<close> places no order, whatever the prices of the bar; the outcome does not
  depend on the entry and exit points, which are read after the gate only; and when both
  exchanges are bound and the buying price is not zero nothing is raised either.
\<close>

theorem open_order_gate:
  assumes "\<exists>k a. map_of (trading_pairs ctx) k = Some a \<and> get_open_orders a \<noteq> []"
  shows "fst (handle_data get_open_orders ctx data) = [] \<and>
         (\<forall>es xs. handle_data get_open_orders (ctx\<lparr>entry_points := es, exit_points := xs\<rparr>) data =
            handle_data get_open_orders ctx data) \<and>
         (\<forall>buying_pair selling_pair.
            map_of (trading_pairs ctx) (name (buying_exchange ctx)) = Some buying_pair \<and>
            map_of (trading_pairs ctx) (name (selling_exchange ctx)) = Some selling_pair \<and>
            current data buying_pair \<noteq> 0 \<longrightarrow>
            handle_data get_open_orders ctx data = ([], None))"
proof -
  from assms obtain k a where "map_of (trading_pairs ctx) k = Some a"
    and "get_open_orders a \<noteq> []" by blast
  then have g: "found_open_orders get_open_orders (trading_pairs ctx)
      (map fst (trading_pairs ctx)) = Inr True"
    by (rule found_open_orders_all)
  have 1: "fst (handle_data get_open_orders ctx data) = []"
    by (simp add: handle_data_def g Let_def split: sum.splits)
  have 2: "handle_data get_open_orders (ctx\<lparr>entry_points := es, exit_points := xs\<rparr>) data =
            handle_data get_open_orders ctx data" for es xs
    by (simp add: handle_data_def g Let_def split: sum.splits)
  have 3: "handle_data get_open_orders ctx data = ([], None)"
    if "map_of (trading_pairs ctx) (name (buying_exchange ctx)) = Some buying_pair"
      and "map_of (trading_pairs ctx) (name (selling_exchange ctx)) = Some selling_pair"
      and "current data buying_pair \<noteq> 0" for buying_pair selling_pair
    using that by (simp add: handle_data_def g Let_def getitem_def price_gap_def truediv_def)
  from 1 2 3 show ?thesis by blast
qed

theorem open_order_gate_witness:
  "handle_data (\<lambda>a. if asset_exchange a = ''bitfinex'' then [1::nat] else [])
     (sample_context (bittrex 1000) (bitfinex [(''neo'', 50)])) (sample_bar 100 110) = ([], None) \<and>
   handle_data (\<lambda>a. ([]::nat list))
     (sample_context (bittrex 1000) (bitfinex [(''neo'', 50)])) (sample_bar 100 110) =
     ([\<lparr>order_asset = sample_symbol ''neo_eth'' ''bittrex'', order_amount = 1 / 2,
         limit_price = 102\<rparr>,
       \<lparr>order_asset = sample_symbol ''neo_eth'' ''bitfinex'', order_amount = - (1 / 2),
         limit_price = 539 / 5\<rparr>], None)"
proof -
  let ?c = "sample_context (bittrex 1000) (bitfinex [(''neo'', 50)])"
  let ?g = "\<lambda>a. if asset_exchange a = ''bitfinex'' then [1::nat] else []"
  have h: "\<exists>k a. map_of (trading_pairs ?c) k = Some a \<and> ?g a \<noteq> []"
  proof (intro exI conjI)
    show "map_of (trading_pairs ?c) ''bitfinex'' = Some (sample_symbol ''neo_eth'' ''bitfinex'')"
      by (simp add: sample_defs)
    show "?g (sample_symbol ''neo_eth'' ''bitfinex'') \<noteq> []"
      by (simp add: sample_defs)
  qed
  have b: "map_of (trading_pairs ?c) (name (buying_exchange ?c)) =
      Some (sample_symbol ''neo_eth'' ''bittrex'')"
    by (simp add: sample_defs)
  have s: "map_of (trading_pairs ?c) (name (selling_exchange ?c)) =
      Some (sample_symbol ''neo_eth'' ''bitfinex'')"
    by (simp add: sample_defs)
  have p: "current (sample_bar 100 110) (sample_symbol ''neo_eth'' ''bittrex'') \<noteq> 0"
    by (simp add: sample_bar_def sample_symbol_def)
  from open_order_gate [OF h, of "sample_bar 100 110"] b s p
  have closed: "handle_data ?g ?c (sample_bar 100 110) = ([], None)" by blast
  have opened: "handle_data (\<lambda>a. ([]::nat list)) ?c (sample_bar 100 110) =
     ([\<lparr>order_asset = sample_symbol ''neo_eth'' ''bittrex'', order_amount = 1 / 2,
         limit_price = 102\<rparr>,
       \<lparr>order_asset = sample_symbol ''neo_eth'' ''bitfinex'', order_amount = - (1 / 2),
         limit_price = 539 / 5\<rparr>], None)"
    by (simp add: handle_data_def trigger_def select_buy_amount_def sorted_py_def
        price_gap_def sample_bar_def sample_defs run_defs)
  from closed opened show ?thesis by simp
qed

end
